theory Spec2Isabelle
  imports Main
begin

section \<open>Python values, jobs and job results\<close>

text \<open>
  The values that travel through the client: job names, positional and keyword arguments.
  \<open>PUuid n\<close> is the \<open>n\<close>-th identifier produced by \<open>uuid.uuid4()\<close>; two of them are
  equal only when they come from the same draw.
\<close>

datatype pyval = PStr string | PInt int | PNone | PUuid nat

type_synonym args = "pyval list"
type_synonym kwargs = "(string \<times> pyval) list"

text \<open>\<open>kwargs.pop(key, default)\<close>: the value under the key (or the default) and the
  dictionary without the key.\<close>

definition kwargs_pop :: "string \<Rightarrow> pyval \<Rightarrow> kwargs \<Rightarrow> pyval \<times> kwargs" where
  "kwargs_pop k d kw =
     (case map_of kw k of
        None \<Rightarrow> (d, kw)
      | Some v \<Rightarrow> (v, filter (\<lambda>e. fst e \<noteq> k) kw))"

record 'f job =
  job_id :: pyval
  job_name :: pyval
  func :: 'f
  args :: args
  kwargs :: kwargs

text \<open>
  Modelled from the spec: the constructor \<open>Job(name, func, *args, **kwargs)\<close> of module
  \<open>tasq.job\<close>, which is not among the sources. The spec's data model gives a Job a
  \<open>job_id\<close> that is "generated if no name supplied" and a \<open>name\<close> that "defaults to
  \<open>job_id\<close>"; \<open>schedule\<close> passes the empty string when the caller supplied no name.
  The first argument counts the identifiers drawn so far; the new count is returned.
\<close>

definition Job :: "nat \<Rightarrow> pyval \<Rightarrow> 'f \<Rightarrow> args \<Rightarrow> kwargs \<Rightarrow> 'f job \<times> nat" where
  "Job n nm f as kw =
     (if nm = PStr ''''
      then (\<lparr>job_id = PUuid n, job_name = PUuid n, func = f, args = as, kwargs = kw\<rparr>, Suc n)
      else (\<lparr>job_id = nm, job_name = nm, func = f, args = as, kwargs = kw\<rparr>, n))"

text \<open>Modelled from the spec: \<open>JobStatus\<close> and the Job Result value object of module
  \<open>tasq.job\<close> (not among the sources), with the fields the spec's data model lists. The
  execution time is kept as an opaque number.\<close>

datatype JobStatus = SUCCESS | FAILED

record jobresult =
  name :: pyval
  outcome :: JobStatus
  "value" :: pyval
  exc :: pyval
  exec_time :: nat

section \<open>The client state\<close>

datatype error =
    TasqClientNotConnected
  | RuntimeError
  | UnboundLocalError
  | InvalidStateError
  | TimeoutError
  | TypeError
  | IndexError
  | ZMQError
  | ContextTerminated
  | AttributeError
  | OtherError

text \<open>The three concrete clients; \<open>ZMQTasqClient\<close> inherits \<open>connect\<close> and
  \<open>disconnect\<close> from \<open>BaseTasqClient\<close>, the other two override them.\<close>

datatype backend = ZMQ | Redis | RabbitMQ

text \<open>
  A \<open>threading.Thread\<close>: created, running its target, or finished. \<open>start()\<close> on a
  thread that was started before raises \<open>RuntimeError\<close> ("threads can only be started
  once"); \<open>is_alive()\<close> holds exactly while the target runs.
\<close>

datatype thread = Initial | Started | Stopped

definition is_alive :: "thread \<Rightarrow> bool" where
  "is_alive t = (t = Started)"

definition start :: "thread \<Rightarrow> error + thread" where
  "start t = (if t = Initial then Inr Started else Inl RuntimeError)"

text \<open>The calls made on the broker connection \<open>self._client\<close>, an external collaborator:
  the model records them in order.\<close>

datatype 'f broker_call = Connect | Disconnect | Close | Send "'f job"

datatype log_entry =
    Debug_not_connected
  | Debug_gathered jobresult
  | Warning_zmq_error
  | Error_key_not_found

text \<open>A local variable of a running function: not yet assigned, or holding a value.\<close>

datatype 'a local_var = Unbound | Bound 'a

text \<open>
  The fields of \<open>BaseTasqClient\<close> that the operations read or write. Futures are objects
  shared between the caller and the results dictionary, so they live in a store
  (\<open>futures\<close>, addressed by position; \<open>None\<close> is a future without a result yet) and the
  dictionary holds addresses. \<open>job_result\<close> is the local variable of the gathering
  thread, \<open>broker\<close> and \<open>logged\<close> are the traces of calls on \<open>self._client\<close> and
  \<open>self._log\<close>, \<open>uuids\<close> counts the identifiers drawn from \<open>uuid4\<close>. Host, port and
  signing key play no part in any operation below and are left out.
\<close>

record 'f client =
  backend :: backend
  is_connected :: bool
  results :: "pyval \<rightharpoonup> nat"
  pending :: "'f job list"
  gatherer :: thread
  job_result :: "jobresult option local_var"
  futures :: "jobresult option list"
  broker :: "'f broker_call list"
  logged :: "log_entry list"
  uuids :: nat

type_synonym ('a, 'f) res = "(error + 'a) \<times> 'f client"

text \<open>\<open>BaseTasqClient.__init__\<close>.\<close>

definition init :: "backend \<Rightarrow> 'f client" where
  "init b = \<lparr>backend = b, is_connected = False, results = Map.empty, pending = [],
             gatherer = Initial, job_result = Unbound, futures = [], broker = [],
             logged = [], uuids = 0\<rparr>"

section \<open>Scheduling\<close>

text \<open>
  \<open>BaseTasqClient.schedule\<close>. The deque \<open>_pending\<close> is a list whose head is the left
  end, so \<open>appendleft\<close> is \<open>#\<close>. The result is the address of the new future, or \<open>None\<close>.
  The last argument is what Python binds to \<open>**kwargs\<close>, so it holds neither \<open>self\<close> nor
  \<open>func\<close>. \<open>self._client.send\<close> is recorded in the trace of broker calls.
\<close>

definition schedule :: "'f client \<Rightarrow> 'f \<Rightarrow> args \<Rightarrow> kwargs \<Rightarrow> nat option \<times> 'f client" where
  "schedule c f as kw =
     (let (nm, kw') = kwargs_pop ''name'' (PStr '''') kw;
          (job, n) = Job (uuids c) nm f as kw';
          c = c\<lparr>uuids := n\<rparr>
      in if \<not> is_connected c
         then (None, c\<lparr>logged := logged c @ [Debug_not_connected],
                        pending := job # pending c\<rparr>)
         else (let future = length (futures c);
                   c = c\<lparr>futures := futures c @ [None]\<rparr>;
                   c = c\<lparr>results := (results c)(nm \<mapsto> future)\<rparr>;
                   c = c\<lparr>broker := broker c @ [Send job]\<rparr>
               in (Some future, c)))"

text \<open>
  The loop that empties the pending queue in \<open>connect\<close>:
  \<^verbatim>\<open>
  while self._pending:
      job = self._pending.pop()
      self.schedule(job.func, *job.args, name=job.job_id, **job.kwargs)
  \<close>
  \<open>pop\<close> takes the right end. A call with \<open>name=\<close> given twice (once explicitly, once in
  \<open>**job.kwargs\<close>) raises \<open>TypeError\<close>. On a client that is not connected \<open>schedule\<close>
  puts the job back and the loop never ends, so the loop is a partial function.
\<close>

partial_function (option) drain :: "'f client \<Rightarrow> (unit, 'f) res option" where
  "drain c =
     (if pending c = [] then Some (Inr (), c)
      else (let job = last (pending c);
                c = c\<lparr>pending := butlast (pending c)\<rparr>
            in if ''name'' \<in> fst ` set (kwargs job) then Some (Inl TypeError, c)
               else drain (snd (schedule c (func job) (args job)
                                  ((''name'', job_id job) # kwargs job)))))"

text \<open>\<open>connect\<close>: \<open>BaseTasqClient.connect\<close> for the ZMQ client, the overriding methods of
  \<open>RedisTasqClient\<close> and \<open>RabbitMQTasqClient\<close> (which have the same body) otherwise.\<close>

definition connect :: "'f client \<Rightarrow> (unit, 'f) res option" where
  "connect c =
     (if \<not> is_connected c then
        (case backend c of
           ZMQ \<Rightarrow>
             (let c = c\<lparr>broker := broker c @ [Connect]\<rparr>;
                  c = c\<lparr>is_connected := True\<rparr>
              in if \<not> is_alive (gatherer c)
                 then (case start (gatherer c) of
                         Inl e \<Rightarrow> Some (Inl e, c)
                       | Inr t \<Rightarrow> drain (c\<lparr>gatherer := t\<rparr>))
                 else drain c)
         | _ \<Rightarrow>
             (let c = c\<lparr>is_connected := True\<rparr>
              in case start (gatherer c) of
                   Inl e \<Rightarrow> Some (Inl e, c)
                 | Inr t \<Rightarrow> drain (c\<lparr>gatherer := t\<rparr>)))
      else Some (Inr (), c))"

definition disconnect :: "'f client \<Rightarrow> 'f client" where
  "disconnect c =
     (if is_connected c then
        (case backend c of
           ZMQ \<Rightarrow> (let c = c\<lparr>broker := broker c @ [Disconnect]\<rparr>
                   in c\<lparr>is_connected := False\<rparr>)
         | _ \<Rightarrow> c\<lparr>is_connected := False\<rparr>)
      else c)"


section \<open>Futures\<close>

text \<open>
  \<open>TasqFuture\<close> extends \<open>concurrent.futures.Future\<close> of the Python standard library and
  inherits \<open>set_result\<close> and \<open>result\<close> from it. \<open>set_result\<close> on a future that already
  has a result raises \<open>InvalidStateError\<close> (Python 3.8 and later; earlier versions
  overwrote the result). \<open>result(timeout)\<close> returns the result once there is one; when the
  wait ends without one it raises \<open>TimeoutError\<close>, and with no timeout it waits for ever
  (\<open>None\<close> below). The argument of \<open>future_result\<close> is the future as it is when the
  wait ends.
\<close>

definition future_set_result :: "jobresult option \<Rightarrow> jobresult \<Rightarrow> error + jobresult option" where
  "future_set_result fut r =
     (case fut of None \<Rightarrow> Inr (Some r) | Some _ \<Rightarrow> Inl InvalidStateError)"

definition future_result :: "jobresult option \<Rightarrow> pyval \<Rightarrow> (error + jobresult) option" where
  "future_result fut timeout =
     (case fut of
        Some r \<Rightarrow> Some (Inr r)
      | None \<Rightarrow> if timeout = PNone then None else Some (Inl TimeoutError))"

text \<open>\<open>TasqFuture.unwrap\<close> and \<open>TasqFuture.exec_time\<close>, both through \<open>self.result()\<close>.\<close>

definition unwrap :: "jobresult option \<Rightarrow> (error + pyval) option" where
  "unwrap fut =
     (case future_result fut PNone of
        None \<Rightarrow> None
      | Some (Inl e) \<Rightarrow> Some (Inl e)
      | Some (Inr r) \<Rightarrow> Some (Inr (if outcome r = FAILED then exc r else value r)))"

definition future_exec_time :: "jobresult option \<Rightarrow> (error + nat) option" where
  "future_exec_time fut =
     (case future_result fut PNone of
        None \<Rightarrow> None
      | Some (Inl e) \<Rightarrow> Some (Inl e)
      | Some (Inr r) \<Rightarrow> Some (Inr (exec_time r)))"

text \<open>The future at an address of the store. The dictionary only ever holds addresses of
  the store (lemma \<open>schedule_wf\<close> below), so the default is never read.\<close>

definition future_at :: "'f client \<Rightarrow> nat \<Rightarrow> jobresult option" where
  "future_at c a = (if a < length (futures c) then futures c ! a else None)"

section \<open>The gathering loop\<close>

text \<open>What one call of the receive primitive does: it returns a Job Result or \<open>None\<close>, or
  it raises.\<close>

datatype recv_event = Received "jobresult option" | Raised error

text \<open>
  The end of the loop body, the same in the three clients:
  \<^verbatim>\<open>
  self._log.debug("Gathered result: %s", job_result)
  try:
      self._results[job_result.name].set_result(job_result)
  except KeyError:
      self._log.error("Can't update result: key not found")
  \<close>
  Only \<open>KeyError\<close> is caught: an exception of \<open>set_result\<close> leaves the loop.
\<close>

definition store_result :: "'f client \<Rightarrow> jobresult \<Rightarrow> (unit, 'f) res" where
  "store_result c r =
     (let c = c\<lparr>logged := logged c @ [Debug_gathered r]\<rparr>
      in case results c (name r) of
           None \<Rightarrow> (Inr (), c\<lparr>logged := logged c @ [Error_key_not_found]\<rparr>)
         | Some a \<Rightarrow>
             (case future_set_result (future_at c a) r of
                Inl e \<Rightarrow> (Inl e, c)
              | Inr fut \<Rightarrow> (Inr (), c\<lparr>futures := (futures c)[a := fut]\<rparr>)))"

text \<open>
  One iteration of \<open>ZMQTasqClient._gather_results\<close>:
  \<^verbatim>\<open>
  try:
      job_result = self._client.recv()
  except (zmq.error.ContextTerminated, zmq.error.ZMQError):
      self._log.warning("ZMQ error while receiving results back")
  if not job_result:
      continue
  \<close>
  followed by the common end. After a caught error the local variable \<open>job_result\<close> is
  what the previous iteration left, or unbound in the first iteration.
\<close>

definition zmq_iteration :: "'f client \<Rightarrow> recv_event \<Rightarrow> (unit, 'f) res" where
  "zmq_iteration c ev =
     (case (case ev of
              Received r \<Rightarrow> Inr (c\<lparr>job_result := Bound r\<rparr>)
            | Raised e \<Rightarrow>
                if e = ContextTerminated \<or> e = ZMQError
                then Inr (c\<lparr>logged := logged c @ [Warning_zmq_error]\<rparr>)
                else Inl e) of
        Inl e \<Rightarrow> (Inl e, c)
      | Inr c \<Rightarrow>
          (case job_result c of
             Unbound \<Rightarrow> (Inl UnboundLocalError, c)
           | Bound None \<Rightarrow> (Inr (), c)
           | Bound (Some r) \<Rightarrow> store_result c r))"

text \<open>One iteration of \<open>RedisTasqClient._gather_results\<close> and of
  \<open>RabbitMQTasqClient._gather_results\<close> (the same body): no exception of \<open>recv_result\<close>
  is caught.\<close>

definition redis_iteration :: "'f client \<Rightarrow> recv_event \<Rightarrow> (unit, 'f) res" where
  "redis_iteration c ev =
     (case ev of
        Raised e \<Rightarrow> (Inl e, c)
      | Received r \<Rightarrow>
          (let c = c\<lparr>job_result := Bound r\<rparr>
           in case r of
                None \<Rightarrow> (Inr (), c)
              | Some r \<Rightarrow> store_result c r))"

definition iteration :: "'f client \<Rightarrow> recv_event \<Rightarrow> (unit, 'f) res" where
  "iteration c ev =
     (case backend c of ZMQ \<Rightarrow> zmq_iteration c ev | _ \<Rightarrow> redis_iteration c ev)"

text \<open>
  \<open>_gather_results\<close> is \<open>while True\<close>: it never returns. A run is described by the
  outcomes of its successive receive calls: after a finite number of them the loop is
  either still running (\<open>Inr ()\<close>) or an exception has left it (\<open>Inl e\<close>), which ends
  the gathering thread.
\<close>

fun gather_results :: "'f client \<Rightarrow> recv_event list \<Rightarrow> (unit, 'f) res" where
  "gather_results c [] = (Inr (), c)"
| "gather_results c (ev # evs) =
     (case iteration c ev of
        (Inl e, c') \<Rightarrow> (Inl e, c')
      | (Inr _, c') \<Rightarrow> gather_results c' evs)"

text \<open>The gathering thread: it runs the loop only once started, and is finished when an
  exception leaves the loop.\<close>

definition gatherer_run :: "'f client \<Rightarrow> recv_event list \<Rightarrow> 'f client" where
  "gatherer_run c evs =
     (if gatherer c = Started
      then (case gather_results c evs of
              (Inl e, c') \<Rightarrow> c'\<lparr>gatherer := Stopped\<rparr>
            | (Inr _, c') \<Rightarrow> c')
      else c)"

text \<open>
  \<open>BaseTasqClient.schedule_blocking\<close>. While the caller waits in \<open>future.result(timeout)\<close>
  the gathering thread goes on; \<open>evs\<close> are the receive outcomes it meets during the wait.
  The result is \<open>None\<close> when the wait never ends.
\<close>

definition schedule_blocking ::
  "'f client \<Rightarrow> 'f \<Rightarrow> args \<Rightarrow> kwargs \<Rightarrow> recv_event list \<Rightarrow> (jobresult, 'f) res option" where
  "schedule_blocking c f as kw evs =
     (if \<not> is_connected c then Some (Inl TasqClientNotConnected, c)
      else (let (timeout, kw') = kwargs_pop ''timeout'' PNone kw;
                (future, c) = schedule c f as kw'
            in case future of
                 None \<Rightarrow> Some (Inl AttributeError, c)
               | Some a \<Rightarrow>
                   (let c = gatherer_run c evs
                    in case future_result (future_at c a) timeout of
                         None \<Rightarrow> None
                       | Some (Inl e) \<Rightarrow> Some (Inl e, c)
                       | Some (Inr r) \<Rightarrow> Some (Inr r, c))))"

section \<open>Interleavings of the caller and the gathering thread\<close>

text \<open>
  The caller's thread schedules jobs while the gathering thread runs iterations of its
  loop. An interleaving of the two is a list of operations; it stops when an exception
  leaves the gathering loop.
\<close>

datatype 'f op = Schedule 'f args kwargs | Gather recv_event

fun run_ops :: "'f client \<Rightarrow> 'f op list \<Rightarrow> (unit, 'f) res" where
  "run_ops c [] = (Inr (), c)"
| "run_ops c (Schedule f as kw # ops) = run_ops (snd (schedule c f as kw)) ops"
| "run_ops c (Gather ev # ops) =
     (case iteration c ev of
        (Inl e, c') \<Rightarrow> (Inl e, c')
      | (Inr _, c') \<Rightarrow> run_ops c' ops)"



text \<open>The jobs handed to \<open>self._client.send\<close>, in order.\<close>

fun sent :: "'f broker_call list \<Rightarrow> 'f job list" where
  "sent [] = []"
| "sent (Send j # bs) = j # sent bs"
| "sent (_ # bs) = sent bs"



section \<open>The client pool\<close>

text \<open>Python's list indexing \<open>xs[i]\<close>, as the position read: negative indices count from
  the end and a position outside the list raises \<open>IndexError\<close>.\<close>

definition index :: "'a list \<Rightarrow> int \<Rightarrow> error + nat" where
  "index xs i =
     (if 0 \<le> i \<and> i < int (length xs) then Inr (nat i)
      else if i < 0 \<and> - int (length xs) \<le> i then Inr (nat (int (length xs) + i))
      else Inl IndexError)"

text \<open>
  \<open>TasqClientPool.map\<close> works on \<open>self._clients\<close> alone, so the pool is the list of its
  (ZMQ) clients. The body of the \<open>for\<close> loop, with the loop variable \<open>idx\<close>:
  \<^verbatim>\<open>
  if idx == len(self._clients) - 1:
      idx = 0
  if not self._clients[idx].is_connected:
      self._clients[idx].connect()
  self._clients[idx].schedule(func, *args, **kwargs)
  \<close>
  No statement of the loop assigns \<open>idx\<close> anything but \<open>0\<close>.
\<close>

fun map_loop ::
  "'f client list \<Rightarrow> int \<Rightarrow> 'f \<Rightarrow> (args \<times> kwargs) list
     \<Rightarrow> ((error + unit) \<times> 'f client list) option" where
  "map_loop cs idx f [] = Some (Inr (), cs)"
| "map_loop cs idx f ((as, kw) # it) =
     (let idx = (if idx = int (length cs) - 1 then 0 else idx)
      in case index cs idx of
           Inl e \<Rightarrow> Some (Inl e, cs)
         | Inr i \<Rightarrow>
             (case (if \<not> is_connected (cs ! i) then connect (cs ! i)
                    else Some (Inr (), cs ! i)) of
                None \<Rightarrow> None
              | Some (Inl e, c) \<Rightarrow> Some (Inl e, cs[i := c])
              | Some (Inr _, c) \<Rightarrow>
                  map_loop (cs[i := snd (schedule c f as kw)]) idx f it))"

definition pool_map ::
  "'f client list \<Rightarrow> 'f \<Rightarrow> (args \<times> kwargs) list
     \<Rightarrow> ((error + unit) \<times> 'f client list) option" where
  "pool_map cs f it = map_loop cs 0 f it"

section \<open>The result holder of the actor module\<close>





section \<open>Actors\<close>


















section \<open>Auxiliary notions for the proofs\<close>

text \<open>A job that the replay in \<open>connect\<close> rebuilds unchanged: its keyword arguments
  hold no \<open>name\<close>, and its identifier is not empty and is its name. Every job that
  \<open>schedule\<close> puts into the pending queue is of this kind.\<close>

definition replayable :: "'f job \<Rightarrow> bool" where
  "replayable j =
     (''name'' \<notin> fst ` set (kwargs j) \<and> job_id j \<noteq> PStr '''' \<and> job_name j = job_id j)"


section \<open>Sample values\<close>

text \<open>Concrete clients, jobs and results for the evaluations below. A callable is
  represented by a number.\<close>

abbreviation zmq_connected :: "nat client" where
  "zmq_connected \<equiv> (init ZMQ)\<lparr>is_connected := True, gatherer := Started, broker := [Connect]\<rparr>"

abbreviation redis_connected :: "nat client" where
  "redis_connected \<equiv> (init Redis)\<lparr>is_connected := True, gatherer := Started\<rparr>"

abbreviation redis_idle :: "nat client" where
  "redis_idle \<equiv> (init Redis)\<lparr>gatherer := Started\<rparr>"

abbreviation job_a :: "nat job" where
  "job_a \<equiv> \<lparr>job_id = PStr ''a'', job_name = PStr ''a'', func = 5, args = [PInt 1], kwargs = []\<rparr>"

abbreviation result_a :: jobresult where
  "result_a \<equiv> \<lparr>name = PStr ''a'', outcome = SUCCESS, value = PInt 3, exc = PNone, exec_time = 1\<rparr>"


abbreviation result_ghost :: jobresult where
  "result_ghost \<equiv> \<lparr>name = PStr ''ghost'', outcome = SUCCESS, value = PInt 0, exc = PNone, exec_time = 1\<rparr>"

abbreviation result_uuid :: jobresult where
  "result_uuid \<equiv> \<lparr>name = PUuid 0, outcome = SUCCESS, value = PInt 0, exc = PNone, exec_time = 1\<rparr>"

section \<open>Facts about scheduling and the store of futures\<close>

















section \<open>Facts about the pending queue\<close>

lemma kwargs_pop_name:
  "''name'' \<notin> fst ` set (snd (kwargs_pop ''name'' d kw))"
  by (auto simp: kwargs_pop_def map_of_eq_None_iff split: option.splits)

lemma Job_replayable: "snd (kwargs_pop ''name'' d kw) = kw' \<Longrightarrow> replayable (fst (Job n nm f as kw'))"
  using kwargs_pop_name [of d kw] by (auto simp: replayable_def Job_def)

lemma schedule_buffers:
  assumes "\<not> is_connected c"
  shows "\<exists>j n. schedule c f as kw =
           (None, c\<lparr>uuids := n, logged := logged c @ [Debug_not_connected],
                    pending := j # pending c\<rparr>) \<and>
         replayable j \<and> func j = f \<and> args j = as"
proof -
  obtain nm kw' where p: "kwargs_pop ''name'' (PStr '''') kw = (nm, kw')"
    by (cases "kwargs_pop ''name'' (PStr '''') kw")
  obtain j n where j: "Job (uuids c) nm f as kw' = (j, n)"
    by (cases "Job (uuids c) nm f as kw'")
  from p have "snd (kwargs_pop ''name'' (PStr '''') kw) = kw'" by simp
  from Job_replayable [OF this, of "uuids c" nm f as] j have "replayable j" by simp
  moreover from j have "func j = f \<and> args j = as"
    by (auto simp: Job_def split: if_splits)
  moreover from assms p j have "schedule c f as kw =
           (None, c\<lparr>uuids := n, logged := logged c @ [Debug_not_connected],
                    pending := j # pending c\<rparr>)"
    by (simp add: schedule_def)
  ultimately show ?thesis by blast
qed

lemma replay_connected:
  assumes "is_connected c" and "replayable j"
  shows "schedule c (func j) (args j) ((''name'', job_id j) # kwargs j) =
           (Some (length (futures c)),
            c\<lparr>futures := futures c @ [None],
              results := (results c)(job_id j \<mapsto> length (futures c)),
              broker := broker c @ [Send j]\<rparr>)"
proof -
  from assms(2) have n: "''name'' \<notin> fst ` set (kwargs j)" and i: "job_id j \<noteq> PStr ''''"
    and m: "job_name j = job_id j"
    by (simp_all add: replayable_def)
  from n have "filter (\<lambda>e. fst e \<noteq> ''name'') (kwargs j) = kwargs j"
    by (force simp: filter_id_conv)
  then have p: "kwargs_pop ''name'' (PStr '''') ((''name'', job_id j) # kwargs j) =
                  (job_id j, kwargs j)"
    by (simp add: kwargs_pop_def)
  from i m have "Job (uuids c) (job_id j) (func j) (args j) (kwargs j) = (j, uuids c)"
    by (simp add: Job_def)
  with assms(1) p show ?thesis
    by (simp add: schedule_def Let_def)
qed

lemma drain_fifo:
  "is_connected c \<Longrightarrow> pending c = p \<Longrightarrow> \<forall>j \<in> set p. replayable j \<Longrightarrow>
   \<exists>c'. drain c = Some (Inr (), c') \<and> pending c' = [] \<and>
        sent (broker c') = sent (broker c) @ rev p"
proof (induction p arbitrary: c rule: rev_induct)
  case Nil
  then show ?case by (subst drain.simps) simp
next
  case (snoc j p)
  from snoc.prems have rj: "replayable j" by simp
  let ?c1 = "c\<lparr>pending := p\<rparr>"
  from snoc.prems(1) have con: "is_connected ?c1" by simp
  let ?c2 = "?c1\<lparr>futures := futures ?c1 @ [None],
                 results := (results ?c1)(job_id j \<mapsto> length (futures ?c1)),
                 broker := broker ?c1 @ [Send j]\<rparr>"
  have s: "schedule ?c1 (func j) (args j) ((''name'', job_id j) # kwargs j) =
             (Some (length (futures ?c1)), ?c2)"
    by (rule replay_connected [OF con rj])
  from rj have n: "''name'' \<notin> fst ` set (kwargs j)" by (simp add: replayable_def)
  have d: "drain c = drain ?c2"
    using snoc.prems(2) n s by (subst drain.simps) simp
  have "is_connected ?c2" "pending ?c2 = p" using snoc.prems(1) by simp_all
  moreover from snoc.prems(3) have "\<forall>j \<in> set p. replayable j" by simp
  ultimately obtain c' where "drain ?c2 = Some (Inr (), c')" "pending c' = []"
    "sent (broker c') = sent (broker ?c2) @ rev p"
    using snoc.IH [of ?c2] by blast
  moreover have "sent (bs @ [Send j]) = sent bs @ [j]" for bs :: "'a broker_call list"
    by (induction bs rule: sent.induct) simp_all
  ultimately show ?case using d by simp
qed

lemma buffer_all:
  "\<not> is_connected c \<Longrightarrow>
   \<exists>c1 js. run_ops c (map (\<lambda>(f, as, kw). Schedule f as kw) calls) = (Inr (), c1) \<and>
     \<not> is_connected c1 \<and> backend c1 = backend c \<and> gatherer c1 = gatherer c \<and>
     broker c1 = broker c \<and> pending c1 = js @ pending c \<and> (\<forall>j \<in> set js. replayable j) \<and>
     map (\<lambda>j. (func j, args j)) (rev js) = map (\<lambda>(f, as, kw). (f, as)) calls"
proof (induction calls arbitrary: c)
  case Nil
  then show ?case by simp
next
  case (Cons call calls)
  obtain f as kw where call: "call = (f, as, kw)" by (cases call)
  from schedule_buffers [OF Cons.prems, of f as kw] obtain j n where
    s: "schedule c f as kw =
          (None, c\<lparr>uuids := n, logged := logged c @ [Debug_not_connected],
                   pending := j # pending c\<rparr>)"
    and j: "replayable j" "func j = f" "args j = as"
    by blast
  let ?c' = "c\<lparr>uuids := n, logged := logged c @ [Debug_not_connected], pending := j # pending c\<rparr>"
  from Cons.prems have "\<not> is_connected ?c'" by simp
  from Cons.IH [OF this] obtain c1 js where
    r: "run_ops ?c' (map (\<lambda>(f, as, kw). Schedule f as kw) calls) = (Inr (), c1)"
    and k: "\<not> is_connected c1" "backend c1 = backend c" "gatherer c1 = gatherer c"
      "broker c1 = broker c" "pending c1 = js @ j # pending c" "\<forall>j \<in> set js. replayable j"
      "map (\<lambda>j. (func j, args j)) (rev js) = map (\<lambda>(f, as, kw). (f, as)) calls"
    by auto
  from r s call have "run_ops c (map (\<lambda>(f, as, kw). Schedule f as kw) (call # calls)) = (Inr (), c1)"
    by simp
  moreover from k(5) have "pending c1 = (js @ [j]) @ pending c" by simp
  moreover from k(6) j(1) have "\<forall>x \<in> set (js @ [j]). replayable x" by simp
  moreover from k(7) j(2,3) call
  have "map (\<lambda>j. (func j, args j)) (rev (js @ [j])) = map (\<lambda>(f, as, kw). (f, as)) (call # calls)"
    by simp
  ultimately show ?case using k(1-4) by blast
qed

lemma connect_fifo:
  assumes "\<not> is_connected c" and "pending c = []"
    and "gatherer c = Initial \<or> (backend c = ZMQ \<and> gatherer c = Started)"
  shows "\<exists>c1 c2 js. run_ops c (map (\<lambda>(f, as, kw). Schedule f as kw) calls) = (Inr (), c1) \<and>
           connect c1 = Some (Inr (), c2) \<and> pending c2 = [] \<and>
           sent (broker c2) = sent (broker c) @ js \<and>
           map (\<lambda>j. (func j, args j)) js = map (\<lambda>(f, as, kw). (f, as)) calls"
proof -
  from buffer_all [OF assms(1), of calls] assms(2) obtain c1 js where
    r: "run_ops c (map (\<lambda>(f, as, kw). Schedule f as kw) calls) = (Inr (), c1)"
    and k: "\<not> is_connected c1" "backend c1 = backend c" "gatherer c1 = gatherer c"
      "broker c1 = broker c" "pending c1 = js" "\<forall>j \<in> set js. replayable j"
      "map (\<lambda>j. (func j, args j)) (rev js) = map (\<lambda>(f, as, kw). (f, as)) calls"
    by auto
  have sent_snoc: "sent (bs @ [Connect]) = sent bs" for bs :: "'a broker_call list"
    by (induction bs rule: sent.induct) simp_all
  have "\<exists>c0. connect c1 = drain c0 \<and> is_connected c0 \<and> pending c0 = js \<and>
          sent (broker c0) = sent (broker c)"
  proof (cases "backend c1")
    case ZMQ
    show ?thesis
    proof (cases "gatherer c1 = Initial")
      case True
      let ?c0 = "c1\<lparr>broker := broker c1 @ [Connect], is_connected := True, gatherer := Started\<rparr>"
      from ZMQ True k(1) have "connect c1 = drain ?c0"
        by (simp add: connect_def start_def is_alive_def Let_def)
      moreover have "sent (broker ?c0) = sent (broker c)" using k(4) by (simp add: sent_snoc)
      ultimately show ?thesis using k(5) by (intro exI [of _ ?c0]) simp
    next
      case False
      with assms(3) k(3) have st: "gatherer c1 = Started" by simp
      let ?c0 = "c1\<lparr>broker := broker c1 @ [Connect], is_connected := True\<rparr>"
      from ZMQ st k(1) have "connect c1 = drain ?c0"
        by (simp add: connect_def is_alive_def Let_def)
      moreover have "sent (broker ?c0) = sent (broker c)" using k(4) by (simp add: sent_snoc)
      ultimately show ?thesis using k(5) by (intro exI [of _ ?c0]) simp
    qed
  next
    case Redis
    let ?c0 = "c1\<lparr>is_connected := True, gatherer := Started\<rparr>"
    from Redis k(1,2,3) assms(3) have "connect c1 = drain ?c0"
      by (simp add: connect_def start_def Let_def)
    then show ?thesis using k(4,5) by (intro exI [of _ ?c0]) simp
  next
    case RabbitMQ
    let ?c0 = "c1\<lparr>is_connected := True, gatherer := Started\<rparr>"
    from RabbitMQ k(1,2,3) assms(3) have "connect c1 = drain ?c0"
      by (simp add: connect_def start_def Let_def)
    then show ?thesis using k(4,5) by (intro exI [of _ ?c0]) simp
  qed
  then obtain c0 where c0: "connect c1 = drain c0" "is_connected c0" "pending c0 = js"
    "sent (broker c0) = sent (broker c)"
    by blast
  from drain_fifo [OF c0(2,3) k(6)] obtain c2 where
    "drain c0 = Some (Inr (), c2)" "pending c2 = []"
    "sent (broker c2) = sent (broker c0) @ rev js"
    by blast
  moreover from k(7) have "map (\<lambda>j. (func j, args j)) (rev js) = map (\<lambda>(f, as, kw). (f, as)) calls" .
  ultimately show ?thesis using c0(1,4) r by (intro exI [of _ c1] exI [of _ c2] exI [of _ "rev js"]) simp
qed

section \<open>Facts about the pool\<close>

lemma index_first: "index cs 0 = (if cs = [] then Inl IndexError else Inr 0)"
  by (simp add: index_def)

lemma tl_update_first: "tl (xs[0 := y]) = tl xs"
  by (cases xs) simp_all

lemma map_loop_rest_untouched:
  "map_loop cs 0 f it = Some (x, cs') \<Longrightarrow> length cs' = length cs \<and> drop 1 cs' = drop 1 cs"
proof (induction it arbitrary: cs)
  case Nil
  then show ?case by simp
next
  case (Cons p it)
  obtain as kw where p: "p = (as, kw)" by (cases p)
  show ?case
  proof (cases "cs = []")
    case True
    with Cons.prems p show ?thesis by (simp add: index_first)
  next
    case False
    let ?r = "if \<not> is_connected (cs ! 0) then connect (cs ! 0) else Some (Inr (), cs ! 0)"
    show ?thesis
    proof (cases ?r)
      case None
      with Cons.prems p False show ?thesis by (simp add: index_first)
    next
      case (Some y)
      obtain o1 c where y: "y = (o1, c)" by (cases y)
      show ?thesis
      proof (cases o1)
        case (Inl e)
        with Cons.prems p False Some y have "cs' = cs[0 := c]"
          by (simp add: index_first)
        then show ?thesis by (simp add: drop_Suc tl_update_first)
      next
        case (Inr u)
        with Cons.prems p False Some y
        have "map_loop (cs[0 := snd (schedule c f as kw)]) 0 f it = Some (x, cs')"
          by (simp add: index_first)
        from Cons.IH [OF this] show ?thesis by (simp add: drop_Suc tl_update_first)
      qed
    qed
  qed
qed

section \<open>Facts about actors\<close>












section \<open>The claims\<close>

subsection \<open>Round-robin distribution in the pool\<close>

text \<open>
  C1. The claim is that \<open>map\<close> schedules the \<open>i\<close>-th pair on client \<open>i mod K\<close>, as the
  docstring of \<open>map\<close> announces ("in a round-robin manner"). The loop never advances
  \<open>idx\<close>: by \<open>map_loop_rest_untouched\<close> no client but the first is ever connected or
  given a job. In a pool of two fresh clients with two pairs, both jobs are sent by the
  first client and the second client is left as it was created, whereas round-robin
  order puts the second pair on the second client.
\<close>

theorem pool_map_all_on_first_client:
  "pool_map [init ZMQ :: nat client, init ZMQ] 5 [([PInt 1], []), ([PInt 2], [])] =
     Some (Inr (),
       [(init ZMQ)\<lparr>is_connected := True, gatherer := Started,
          broker := [Connect,
            Send \<lparr>job_id = PUuid 0, job_name = PUuid 0, func = 5, args = [PInt 1], kwargs = []\<rparr>,
            Send \<lparr>job_id = PUuid 1, job_name = PUuid 1, func = 5, args = [PInt 2], kwargs = []\<rparr>],
          futures := [None, None], results := [PStr '''' \<mapsto> 1], uuids := 2\<rparr>,
        init ZMQ])"
  by (simp add: pool_map_def index_def connect_def start_def is_alive_def drain.simps
      schedule_def kwargs_pop_def Job_def init_def)

subsection \<open>Reconnecting\<close>

text \<open>
  C2. The claim is that a reconnect after a disconnect starts no second gathering loop and
  does not fail. \<open>BaseTasqClient.connect\<close> guards the start with \<open>is_alive()\<close>; the
  overriding \<open>connect\<close> of the Redis and RabbitMQ clients calls \<open>self._gatherer.start()\<close>
  unguarded. A fresh Redis client connects, disconnects, and its second \<open>connect\<close>
  raises \<open>RuntimeError\<close> from the second \<open>start()\<close> of the same thread, after the
  connection flag has been set; the RabbitMQ client does the same.
\<close>

theorem redis_reconnect_raises:
  "connect (init Redis :: nat client) = Some (Inr (), redis_connected) \<and>
   disconnect redis_connected = redis_idle \<and>
   connect redis_idle = Some (Inl RuntimeError, redis_connected) \<and>
   connect ((init RabbitMQ :: nat client)\<lparr>gatherer := Started\<rparr>) =
     Some (Inl RuntimeError, (init RabbitMQ)\<lparr>is_connected := True, gatherer := Started\<rparr>)"
  by (simp add: connect_def disconnect_def init_def start_def drain.simps)

text \<open>The first part of the claim holds for the three clients: on a connected client
  \<open>connect\<close> does nothing.\<close>

lemma connect_connected_noop: "is_connected c \<Longrightarrow> connect c = Some (Inr (), c)"
  by (simp add: connect_def)

text \<open>The inherited \<open>connect\<close> of the ZMQ client, for comparison: while the gathering
  thread is alive a reconnect starts nothing and succeeds.\<close>

lemma zmq_reconnect:
  "connect (disconnect zmq_connected) =
     Some (Inr (), (init ZMQ)\<lparr>is_connected := True, gatherer := Started,
                     broker := [Connect, Disconnect, Connect]\<rparr>)"
  by (simp add: connect_def disconnect_def init_def start_def is_alive_def drain.simps)

subsection \<open>The key of a scheduled job\<close>

text \<open>
  C3. The claim is that on a connected client \<open>schedule\<close> stores the new future under
  the Job's correlation name. \<open>schedule\<close> stores it under the \<open>name\<close> keyword argument,
  which is the empty string when the caller gave none, while the job it sends carries a
  generated identifier as its name (the docstring: "otherwise a UUID will be defined";
  \<open>TasqClientPool.schedule\<close> uses \<open>job.job_id\<close> as the key). For a job scheduled
  without a name the future is stored under \<open>''\<close>, nothing is stored under the job's
  name, and the result that comes back for the job finds no future: it is logged as an
  unknown key and the future stays empty.
\<close>

theorem schedule_unnamed_key:
  "schedule zmq_connected 5 [] [] =
     (Some 0,
      (init ZMQ)\<lparr>is_connected := True, gatherer := Started,
        broker := [Connect,
          Send \<lparr>job_id = PUuid 0, job_name = PUuid 0, func = 5, args = [], kwargs = []\<rparr>],
        futures := [None], results := [PStr '''' \<mapsto> 0], uuids := 1\<rparr>) \<and>
   results (snd (schedule zmq_connected 5 [] [])) (PUuid 0) = None \<and>
   gather_results (snd (schedule zmq_connected 5 [] [])) [Received (Some result_uuid)] =
     (Inr (),
      (init ZMQ)\<lparr>is_connected := True, gatherer := Started,
        broker := [Connect,
          Send \<lparr>job_id = PUuid 0, job_name = PUuid 0, func = 5, args = [], kwargs = []\<rparr>],
        futures := [None], results := [PStr '''' \<mapsto> 0], uuids := 1,
        job_result := Bound (Some result_uuid),
        logged := [Debug_gathered result_uuid, Error_key_not_found]\<rparr>)"
  by (simp add: schedule_def kwargs_pop_def Job_def init_def iteration_def zmq_iteration_def
      store_result_def)

subsection \<open>Draining the pending queue\<close>

text \<open>
  C4. The claim is that on every disconnected client \<open>N\<close> calls of \<open>schedule\<close> followed
  by one \<open>connect()\<close> send exactly the \<open>N\<close> jobs, in submission order, and leave the
  pending queue empty. The drain itself is first-in first-out (\<open>connect_fifo\<close> above: it
  holds whenever \<open>connect\<close> reaches the loop). On a Redis or RabbitMQ client that was
  connected before, \<open>connect\<close> raises \<open>RuntimeError\<close> at the unguarded
  \<open>self._gatherer.start()\<close> before the loop: the job scheduled while disconnected is
  not sent and stays in the pending queue.
\<close>

theorem redis_reconnect_keeps_pending:
  "schedule redis_idle 5 [PInt 1] [(''name'', PStr ''a'')] =
     (None, (init Redis)\<lparr>gatherer := Started, logged := [Debug_not_connected],
                pending := [job_a]\<rparr>) \<and>
   connect ((init Redis)\<lparr>gatherer := Started, logged := [Debug_not_connected],
                pending := [job_a]\<rparr>) =
     Some (Inl RuntimeError,
        (init Redis)\<lparr>is_connected := True, gatherer := Started,
           logged := [Debug_not_connected], pending := [job_a]\<rparr>) \<and>
   sent (broker ((init Redis :: nat client)\<lparr>is_connected := True, gatherer := Started,
           logged := [Debug_not_connected], pending := [job_a]\<rparr>)) = []"
  by (simp add: schedule_def kwargs_pop_def Job_def connect_def init_def start_def drain.simps)

subsection \<open>One completion per future\<close>




subsection \<open>Reading a future before it is completed\<close>




subsection \<open>Receive errors in the gathering loop\<close>

text \<open>
  C7. The claim is that a transient receive error is logged and the loop goes on to the
  next receive, without ending the loop and without completing any future, also in the
  first iteration. The \<open>except\<close> clause of the ZMQ loop logs the error and falls through to
  \<open>if not job_result\<close>. In the first iteration \<open>job_result\<close> is unbound and
  \<open>UnboundLocalError\<close> leaves the loop. In a later iteration \<open>job_result\<close> still holds
  the previous Job Result, which is stored a second time: \<open>set_result\<close> is called on the
  future it completed before and \<open>InvalidStateError\<close> leaves the loop.
\<close>

theorem zmq_receive_error_leaves_loop:
  "gather_results zmq_connected [Raised ZMQError] =
     (Inl UnboundLocalError,
      (init ZMQ)\<lparr>is_connected := True, gatherer := Started, broker := [Connect],
        logged := [Warning_zmq_error]\<rparr>) \<and>
   gather_results
       ((init ZMQ :: nat client)\<lparr>is_connected := True, gatherer := Started, broker := [Connect],
          futures := [None], results := [PStr ''a'' \<mapsto> 0]\<rparr>)
       [Received (Some result_a), Raised ZMQError] =
     (Inl InvalidStateError,
      (init ZMQ)\<lparr>is_connected := True, gatherer := Started, broker := [Connect],
        futures := [Some result_a], results := [PStr ''a'' \<mapsto> 0],
        job_result := Bound (Some result_a),
        logged := [Debug_gathered result_a, Warning_zmq_error, Debug_gathered result_a]\<rparr>)"
  by (simp add: iteration_def zmq_iteration_def store_result_def future_set_result_def
      future_at_def init_def)

subsection \<open>Results without a matching future\<close>

text \<open>
  C8. In the gathering loop of each of the three clients, a Job Result whose name is not
  a key of the results dictionary is logged and dropped: the loop goes on with the
  following receives on a client that differs only by the two log entries (and the local
  variable of the loop), so no future, no dictionary entry and no other field changes;
  and a following Job Result whose key holds an uncompleted future completes that
  future.
\<close>

theorem unknown_key_discarded:
  assumes "results c (name ghost) = None"
  shows "gather_results c (Received (Some ghost) # evs) =
           gather_results (c\<lparr>job_result := Bound (Some ghost),
              logged := logged c @ [Debug_gathered ghost, Error_key_not_found]\<rparr>) evs \<and>
         (results c (name r) = Some a \<and> a < length (futures c) \<and> futures c ! a = None \<longrightarrow>
          gather_results c [Received (Some ghost), Received (Some r)] =
            (Inr (), c\<lparr>job_result := Bound (Some r),
               logged := logged c @ [Debug_gathered ghost, Error_key_not_found, Debug_gathered r],
               futures := (futures c)[a := Some r]\<rparr>))"
  using assms
  by (cases "backend c")
     (simp_all add: iteration_def zmq_iteration_def redis_iteration_def store_result_def
       future_set_result_def future_at_def)

theorem unknown_key_discarded_witness:
  "results ((init Redis :: nat client)\<lparr>is_connected := True, gatherer := Started,
      futures := [None], results := [PStr ''a'' \<mapsto> 0]\<rparr>) (name result_ghost) = None \<and>
   results ((init Redis :: nat client)\<lparr>is_connected := True, gatherer := Started,
      futures := [None], results := [PStr ''a'' \<mapsto> 0]\<rparr>) (name result_a) = Some 0 \<and>
   gather_results ((init Redis :: nat client)\<lparr>is_connected := True, gatherer := Started,
      futures := [None], results := [PStr ''a'' \<mapsto> 0]\<rparr>)
      [Received (Some result_ghost), Received (Some result_a)] =
     (Inr (), (init Redis)\<lparr>is_connected := True, gatherer := Started,
        results := [PStr ''a'' \<mapsto> 0],
        job_result := Bound (Some result_a),
        logged := [Debug_gathered result_ghost, Error_key_not_found, Debug_gathered result_a],
        futures := [Some result_a]\<rparr>)"
  using unknown_key_discarded [where c = "(init Redis :: nat client)\<lparr>is_connected := True,
      gatherer := Started, futures := [None], results := [PStr ''a'' \<mapsto> 0]\<rparr>"
      and ghost = result_ghost and r = result_a and a = 0 and evs = "[]"]
  by (simp add: init_def)

subsection \<open>Blocking submission on a disconnected client\<close>

text \<open>
  C9. On a disconnected client \<open>schedule_blocking\<close> raises \<open>TasqClientNotConnected\<close> at
  once, whatever the arguments and whatever the gathering thread would receive, and the
  client is left exactly as it was: the pending queue, the results dictionary and every
  other field are unchanged.
\<close>

theorem schedule_blocking_not_connected:
  "\<not> is_connected c \<Longrightarrow> schedule_blocking c f as kw evs = Some (Inl TasqClientNotConnected, c)"
  by (simp add: schedule_blocking_def)

theorem schedule_blocking_not_connected_witness:
  "\<not> is_connected (init Redis :: nat client) \<and>
   schedule_blocking (init Redis :: nat client) 7 [PInt 1] [(''timeout'', PInt 2)] [] =
     Some (Inl TasqClientNotConnected, init Redis)"
  using schedule_blocking_not_connected [of "init Redis :: nat client" 7 "[PInt 1]" "[(''timeout'', PInt 2)]" "[]"]
  by (simp add: init_def)

subsection \<open>Closing and joining an actor\<close>



end
